theory Spec2Isabelle
  imports Complex_Main "HOL-Library.AList"
begin

section \<open>Python values and dictionaries\<close>

text \<open>
  The analyzer works on the decoded JSON answers of the GitHub API: Python dictionaries
  with string keys whose values are \<open>None\<close>, booleans, integers, strings, lists and
  dictionaries. A dictionary is an association list in insertion order; item assignment
  is \<open>AList.update\<close>, which overwrites in place or appends, as Python does.
  JSON numbers with a fraction are outside this value type, and strings are ASCII.
\<close>

datatype pyval =
    PNone
  | PBool bool
  | PInt int
  | PStr string
  | PList "pyval list"
  | PDict "(string \<times> pyval) list"

type_synonym dict = "(string \<times> pyval) list"

text \<open>
  The exceptions the modelled code can meet. \<open>RequestException\<close> stands for any failure
  raised by an HTTP call; a JSON decoding failure is a \<open>ValueError\<close>, as in Python.
\<close>

datatype py_error = TypeError | KeyError | ValueError | AttributeError | RequestException

text \<open>Truth value of a Python object, as \<open>if x:\<close> tests it.\<close>

fun truthy :: "pyval \<Rightarrow> bool" where
  "truthy PNone = False"
| "truthy (PBool b) = b"
| "truthy (PInt n) = (n \<noteq> 0)"
| "truthy (PStr s) = (s \<noteq> [])"
| "truthy (PList xs) = (xs \<noteq> [])"
| "truthy (PDict kvs) = (kvs \<noteq> [])"

text \<open>\<open>d.get(k, default)\<close>; \<open>d.get(k)\<close> is \<open>dict_get d k PNone\<close>.\<close>

definition dict_get :: "dict \<Rightarrow> string \<Rightarrow> pyval \<Rightarrow> pyval" where
  "dict_get d k dflt = (case map_of d k of Some v \<Rightarrow> v | None \<Rightarrow> dflt)"

text \<open>\<open>d[k]\<close> on a dictionary: \<open>KeyError\<close> when the key is missing.\<close>

definition dict_item :: "('k \<times> 'v) list \<Rightarrow> 'k \<Rightarrow> py_error + 'v" where
  "dict_item d k = (case map_of d k of None \<Rightarrow> Inl KeyError | Some v \<Rightarrow> Inr v)"

text \<open>\<open>d[k] = v\<close>.\<close>

definition dict_set :: "dict \<Rightarrow> string \<Rightarrow> pyval \<Rightarrow> dict" where
  "dict_set d k v = AList.update k v d"

text \<open>
  The number an \<open>int\<close> or \<open>bool\<close> stands for in arithmetic and ordering
  (\<open>True\<close> is 1, \<open>False\<close> is 0); every other value raises \<open>TypeError\<close> there.
\<close>

fun py_number :: "pyval \<Rightarrow> py_error + int" where
  "py_number (PInt n) = Inr n"
| "py_number (PBool b) = Inr (if b then 1 else 0)"
| "py_number _ = Inl TypeError"

text \<open>\<open>x > n\<close> and \<open>x < n\<close> against an integer literal.\<close>

definition py_gt :: "pyval \<Rightarrow> int \<Rightarrow> py_error + bool" where
  "py_gt x n = (case py_number x of Inl e \<Rightarrow> Inl e | Inr m \<Rightarrow> Inr (m > n))"



section \<open>Scoring engine\<close>

subsection \<open>Documentation score\<close>

definition calculate_documentation_score :: "dict \<Rightarrow> int" where
  "calculate_documentation_score repo =
     (let score = 0;
          score = (if truthy (dict_get repo ''readme_exists'' (PBool False)) then score + 40 else score);
          score = (if truthy (dict_get repo ''description'' PNone) then score + 20 else score);
          score = (if truthy (dict_get repo ''homepage'' PNone) then score + 10 else score);
          score = (if truthy (dict_get repo ''has_wiki'' PNone) then score + 15 else score);
          score = (if truthy (dict_get repo ''has_pages'' PNone) then score + 15 else score)
      in min score 100)"

text \<open>The five keys read by the documentation score.\<close>

definition doc_signals :: "string list" where
  "doc_signals = [''readme_exists'', ''description'', ''homepage'', ''has_wiki'', ''has_pages'']"

subsection \<open>Code quality score\<close>

text \<open>
  The three comparisons with \<open>0\<close> raise \<open>TypeError\<close> on a value that is not a number
  (a JSON \<open>null\<close>, a string); the two flags are only tested for truth.
\<close>

definition calculate_code_quality_score :: "dict \<Rightarrow> py_error + int" where
  "calculate_code_quality_score repo =
     (let score = 0 in
      case py_gt (dict_get repo ''languages_count'' (PInt 0)) 0 of Inl e \<Rightarrow> Inl e | Inr has_lang \<Rightarrow>
      let score = (if has_lang then score + 20 else score);
          score = (if truthy (dict_get repo ''has_issues'' (PBool False)) then score + 15 else score);
          score = (if truthy (dict_get repo ''has_projects'' (PBool False)) then score + 15 else score) in
      case py_gt (dict_get repo ''size'' (PInt 0)) 0 of Inl e \<Rightarrow> Inl e | Inr has_size \<Rightarrow>
      let score = (if has_size then score + 25 else score) in
      case py_gt (dict_get repo ''stargazers_count'' (PInt 0)) 0 of Inl e \<Rightarrow> Inl e | Inr has_stars \<Rightarrow>
      let score = (if has_stars then score + 25 else score)
      in Inr (min score 100))"

subsection \<open>Dates: \<open>datetime.strptime\<close>, \<open>datetime.now\<close> and their difference\<close>

record datetime =
  year :: int
  month :: int
  day :: int
  hour :: int
  minute :: int
  second :: int
  microsecond :: int

definition char_in :: "char \<Rightarrow> char \<Rightarrow> char \<Rightarrow> bool" where
  "char_in lo hi c = ((of_char lo :: nat) \<le> of_char c \<and> (of_char c :: nat) \<le> of_char hi)"

text \<open>
  The regular expressions the library builds for the directives of the format
  \<open>%Y-%m-%dT%H:%M:%SZ\<close>. Each function lists the ways its pattern matches a prefix of
  the text, in the order of the pattern's alternatives, with the matched text and the rest.
\<close>

fun re_one :: "(char \<Rightarrow> bool) \<Rightarrow> string \<Rightarrow> (string \<times> string) list" where
  "re_one p (a # rest) = (if p a then [([a], rest)] else [])"
| "re_one p [] = []"

fun re_two :: "(char \<Rightarrow> bool) \<Rightarrow> (char \<Rightarrow> bool) \<Rightarrow> string \<Rightarrow> (string \<times> string) list" where
  "re_two p q (a # b # rest) = (if p a \<and> q b then [([a, b], rest)] else [])"
| "re_two p q _ = []"

definition digit :: "char \<Rightarrow> bool" where
  "digit = char_in (CHR ''0'') (CHR ''9'')"

text \<open>\<open>%Y\<close> is \<open>\d\d\d\d\<close>.\<close>

fun re_Y :: "string \<Rightarrow> (string \<times> string) list" where
  "re_Y (a # b # c # d # rest) =
     (if digit a \<and> digit b \<and> digit c \<and> digit d then [([a, b, c, d], rest)] else [])"
| "re_Y _ = []"

text \<open>\<open>%m\<close> is \<open>1[0-2]|0[1-9]|[1-9]\<close>.\<close>

definition re_m :: "string \<Rightarrow> (string \<times> string) list" where
  "re_m s = re_two ((=) (CHR ''1'')) (char_in (CHR ''0'') (CHR ''2'')) s
          @ re_two ((=) (CHR ''0'')) (char_in (CHR ''1'') (CHR ''9'')) s
          @ re_one (char_in (CHR ''1'') (CHR ''9'')) s"

text \<open>\<open>%d\<close> is \<open>3[0-1]|[1-2]\d|0[1-9]|[1-9]| [1-9]\<close>.\<close>

definition re_d :: "string \<Rightarrow> (string \<times> string) list" where
  "re_d s = re_two ((=) (CHR ''3'')) (char_in (CHR ''0'') (CHR ''1'')) s
          @ re_two (char_in (CHR ''1'') (CHR ''2'')) digit s
          @ re_two ((=) (CHR ''0'')) (char_in (CHR ''1'') (CHR ''9'')) s
          @ re_one (char_in (CHR ''1'') (CHR ''9'')) s
          @ re_two ((=) (CHR '' '')) (char_in (CHR ''1'') (CHR ''9'')) s"

text \<open>\<open>%H\<close> is \<open>2[0-3]|[0-1]\d|\d\<close>.\<close>

definition re_H :: "string \<Rightarrow> (string \<times> string) list" where
  "re_H s = re_two ((=) (CHR ''2'')) (char_in (CHR ''0'') (CHR ''3'')) s
          @ re_two (char_in (CHR ''0'') (CHR ''1'')) digit s
          @ re_one digit s"

text \<open>\<open>%M\<close> is \<open>[0-5]\d|\d\<close>.\<close>

definition re_M :: "string \<Rightarrow> (string \<times> string) list" where
  "re_M s = re_two (char_in (CHR ''0'') (CHR ''5'')) digit s @ re_one digit s"

text \<open>\<open>%S\<close> is \<open>6[0-1]|[0-5]\d|\d\<close>.\<close>

definition re_S :: "string \<Rightarrow> (string \<times> string) list" where
  "re_S s = re_two ((=) (CHR ''6'')) (char_in (CHR ''0'') (CHR ''1'')) s
          @ re_two (char_in (CHR ''0'') (CHR ''5'')) digit s
          @ re_one digit s"

text \<open>A literal character of the format; the pattern is compiled ignoring case.\<close>

definition re_lit :: "char \<Rightarrow> char \<Rightarrow> string \<Rightarrow> string list" where
  "re_lit upper lower s = map snd (re_one (\<lambda>c. c = upper \<or> c = lower) s)"

text \<open>\<open>int(text)\<close> on a matched field: decimal digits, blanks around them ignored.\<close>

definition int_of_field :: "string \<Rightarrow> int" where
  "int_of_field s = foldl (\<lambda>n c. 10 * n + (int (of_char c) - 48)) 0 (filter digit s)"

text \<open>
  Every match of the whole pattern at the start of the text, in backtracking order:
  the six fields and what is left of the text after the final \<open>Z\<close>.
\<close>

definition strptime_matches :: "string \<Rightarrow> ((string \<times> string \<times> string \<times> string \<times> string \<times> string) \<times> string) list" where
  "strptime_matches s =
     [((Y, m, d, H, M, S), r11).
        (Y, r1) \<leftarrow> re_Y s, r2 \<leftarrow> re_lit (CHR ''-'') (CHR ''-'') r1,
        (m, r3) \<leftarrow> re_m r2, r4 \<leftarrow> re_lit (CHR ''-'') (CHR ''-'') r3,
        (d, r5) \<leftarrow> re_d r4, r6 \<leftarrow> re_lit (CHR ''T'') (CHR ''t'') r5,
        (H, r7) \<leftarrow> re_H r6, r8 \<leftarrow> re_lit (CHR '':'') (CHR '':'') r7,
        (M, r9) \<leftarrow> re_M r8, r10 \<leftarrow> re_lit (CHR '':'') (CHR '':'') r9,
        (S, r10') \<leftarrow> re_S r10, r11 \<leftarrow> re_lit (CHR ''Z'') (CHR ''z'') r10']"

definition is_leap :: "int \<Rightarrow> bool" where
  "is_leap y = (y mod 4 = 0 \<and> (y mod 100 \<noteq> 0 \<or> y mod 400 = 0))"

definition days_in_month :: "int \<Rightarrow> int \<Rightarrow> int" where
  "days_in_month y m =
     (if m = 2 then (if is_leap y then 29 else 28)
      else if m = 4 \<or> m = 6 \<or> m = 9 \<or> m = 11 then 30 else 31)"

text \<open>
  The constructor \<open>datetime(year, month, day, hour, minute, second)\<close> rejects a year
  below 1, a day the month does not have and a second above 59 with \<open>ValueError\<close>.
\<close>

definition make_datetime :: "int \<Rightarrow> int \<Rightarrow> int \<Rightarrow> int \<Rightarrow> int \<Rightarrow> int \<Rightarrow> py_error + datetime" where
  "make_datetime y m d H M S =
     (if 1 \<le> y \<and> y \<le> 9999 \<and> 1 \<le> m \<and> m \<le> 12 \<and> 1 \<le> d \<and> d \<le> days_in_month y m
         \<and> 0 \<le> H \<and> H \<le> 23 \<and> 0 \<le> M \<and> M \<le> 59 \<and> 0 \<le> S \<and> S \<le> 59
      then Inr \<lparr>year = y, month = m, day = d, hour = H, minute = M, second = S, microsecond = 0\<rparr>
      else Inl ValueError)"

text \<open>
  \<open>datetime.strptime(x, '%Y-%m-%dT%H:%M:%SZ')\<close>: \<open>TypeError\<close> when \<open>x\<close> is not a
  string, \<open>ValueError\<close> when the text does not match, when text remains after the first
  match, or when the fields are not a date.
\<close>

definition strptime :: "pyval \<Rightarrow> py_error + datetime" where
  "strptime x =
     (case x of
        PStr s \<Rightarrow>
          (case strptime_matches s of
             [] \<Rightarrow> Inl ValueError
           | ((Y, m, d, H, M, S), rest) # _ \<Rightarrow>
               if rest \<noteq> [] then Inl ValueError
               else make_datetime (int_of_field Y) (int_of_field m) (int_of_field d)
                      (int_of_field H) (int_of_field M) (int_of_field S))
      | _ \<Rightarrow> Inl TypeError)"

text \<open>The proleptic Gregorian day number of a date (\<open>toordinal\<close>).\<close>

definition days_before_year :: "int \<Rightarrow> int" where
  "days_before_year y = (y - 1) * 365 + (y - 1) div 4 - (y - 1) div 100 + (y - 1) div 400"

definition days_before_month :: "int \<Rightarrow> int \<Rightarrow> int" where
  "days_before_month y m = sum_list (map (days_in_month y) [1..m - 1])"

definition toordinal :: "datetime \<Rightarrow> int" where
  "toordinal t = days_before_year (year t) + days_before_month (year t) (month t) + day t"

definition total_microseconds :: "datetime \<Rightarrow> int" where
  "total_microseconds t =
     ((toordinal t * 86400 + hour t * 3600 + minute t * 60 + second t) * 1000000 + microsecond t)"

text \<open>
  \<open>(now - pushed_at).days\<close>: the difference is normalised so that its seconds and
  microseconds are not negative, which makes the day count a floor division.
\<close>

definition days_between :: "datetime \<Rightarrow> datetime \<Rightarrow> int" where
  "days_between now pushed_at = (total_microseconds now - total_microseconds pushed_at) div 86400000000"

subsection \<open>Activity score\<close>

text \<open>
  The function reads the clock: \<open>now\<close> is the value \<open>datetime.now()\<close> returns during
  the call.
\<close>

definition calculate_activity_score :: "datetime \<Rightarrow> dict \<Rightarrow> py_error + int" where
  "calculate_activity_score now repo =
     (let score = 0 in
      case strptime (dict_get repo ''pushed_at'' (PStr ''2000-01-01'')) of Inl e \<Rightarrow> Inl e | Inr pushed_at \<Rightarrow>
      let days_since_update = days_between now pushed_at;
          score = (if days_since_update < 7 then score + 40
                   else if days_since_update < 30 then score + 30
                   else if days_since_update < 90 then score + 20
                   else score + 10) in
      case py_gt (dict_get repo ''open_issues_count'' (PInt 0)) 0 of Inl e \<Rightarrow> Inl e | Inr has_issues \<Rightarrow>
      let score = (if has_issues then score + 20 else score) in
      case py_gt (dict_get repo ''forks_count'' (PInt 0)) 0 of Inl e \<Rightarrow> Inl e | Inr has_forks \<Rightarrow>
      let score = (if has_forks then score + 20 else score) in
      case py_gt (dict_get repo ''watchers_count'' (PInt 0)) 0 of Inl e \<Rightarrow> Inl e | Inr has_watchers \<Rightarrow>
      let score = (if has_watchers then score + 20 else score)
      in Inr (min score 100))"

subsection \<open>Portfolio score\<close>

text \<open>
  What \<open>get_enhanced_github_data\<close> returns: one of the two sentinel strings, or the
  dictionary with the keys \<open>user\<close>, \<open>repos\<close> and \<open>orgs\<close>.
\<close>

datatype fetch_result = NO_TOKEN | ERROR | Bundle pyval "dict list" pyval

text \<open>
  Python's \<open>/\<close> yields a float. Floats are idealised as rationals here: means, the
  impact quotient, the weighted sum and \<open>round\<close> are exact, and the rounding error of
  binary floating point is outside the model.
\<close>

text \<open>\<open>sum(...)\<close> of a generator of dictionary values, starting from \<open>0\<close>.\<close>

fun py_sum :: "int \<Rightarrow> pyval list \<Rightarrow> py_error + int" where
  "py_sum acc [] = Inr acc"
| "py_sum acc (x # xs) = (case py_number x of Inl e \<Rightarrow> Inl e | Inr n \<Rightarrow> py_sum (acc + n) xs)"

text \<open>\<open>round(x, 1)\<close>: to one decimal, a tie going to the even neighbour.\<close>

definition py_round1 :: "rat \<Rightarrow> rat" where
  "py_round1 x =
     (let y = x * 10; f = \<lfloor>y\<rfloor>; r = y - of_int f
      in of_int (if r < 1 / 2 then f else if r > 1 / 2 then f + 1
                 else if even f then f else f + 1) / 10)"

text \<open>\<open>v.keys()\<close>: only a dictionary has the method.\<close>

fun py_keys :: "pyval \<Rightarrow> py_error + string list" where
  "py_keys (PDict kvs) = Inr (map fst kvs)"
| "py_keys _ = Inl AttributeError"

text \<open>
  The loop \<open>for repo in repos: languages.update(repo.get('languages', {}).keys())\<close>;
  the set of names is a list without repetition.
\<close>

fun collect_languages :: "string list \<Rightarrow> dict list \<Rightarrow> py_error + string list" where
  "collect_languages languages [] = Inr languages"
| "collect_languages languages (repo # rest) =
     (case py_keys (dict_get repo ''languages'' (PDict [])) of
        Inl e \<Rightarrow> Inl e
      | Inr ks \<Rightarrow> collect_languages (fold List.insert ks languages) rest)"

record weights_t =
  documentation :: rat
  code_quality :: rat
  activity :: rat
  organization :: rat
  impact :: rat
  technical_depth :: rat

definition weights :: weights_t where
  "weights = \<lparr>documentation = 0.20, code_quality = 0.20, activity = 0.15,
              organization = 0.15, impact = 0.15, technical_depth = 0.15\<rparr>"

definition final_score :: "rat \<Rightarrow> rat \<Rightarrow> rat \<Rightarrow> rat \<Rightarrow> rat \<Rightarrow> rat \<Rightarrow> rat" where
  "final_score doc_score code_score activity_score org_score impact_score tech_score =
     doc_score * documentation weights +
     code_score * code_quality weights +
     activity_score * activity weights +
     org_score * organization weights +
     impact_score * impact weights +
     tech_score * technical_depth weights"

text \<open>
  The six dimension values of a bundle with at least one repository, before rounding,
  in the order documentation, code quality, activity, organization, impact, technical
  depth.
\<close>

definition dimension_values ::
  "dict list \<Rightarrow> pyval \<Rightarrow> py_error + (rat \<times> rat \<times> rat \<times> rat \<times> rat \<times> rat)" where
  "dimension_values repos orgs =
     (case py_sum 0 (map (\<lambda>r. dict_get r ''doc_score'' (PInt 0)) repos) of Inl e \<Rightarrow> Inl e | Inr doc_total \<Rightarrow>
      let doc_score = of_int doc_total / of_nat (length repos) in
      case py_sum 0 (map (\<lambda>r. dict_get r ''code_score'' (PInt 0)) repos) of Inl e \<Rightarrow> Inl e | Inr code_total \<Rightarrow>
      let code_score = of_int code_total / of_nat (length repos) in
      case py_sum 0 (map (\<lambda>r. dict_get r ''activity_score'' (PInt 0)) repos) of Inl e \<Rightarrow> Inl e | Inr activity_total \<Rightarrow>
      let activity_score = of_int activity_total / of_nat (length repos);
          org_score = 0;
          org_score = (if truthy orgs then org_score + 20 else org_score);
          org_score = (if length repos \<ge> 5 then org_score + 20 else org_score);
          org_score = (if length repos \<ge> 3 then org_score + 20 else org_score) in
      case py_sum 0 (map (\<lambda>r. dict_get r ''stargazers_count'' (PInt 0)) repos) of Inl e \<Rightarrow> Inl e | Inr total_stars \<Rightarrow>
      case py_sum 0 (map (\<lambda>r. dict_get r ''forks_count'' (PInt 0)) repos) of Inl e \<Rightarrow> Inl e | Inr total_forks \<Rightarrow>
      let impact_score = min 100 (of_int (total_stars * 2 + total_forks) / 5) in
      case collect_languages [] repos of Inl e \<Rightarrow> Inl e | Inr languages \<Rightarrow>
      let tech_score = 0 + min 40 (int (length languages) * 8)
      in Inr (doc_score, code_score, activity_score, of_int org_score, impact_score, of_int tech_score))"

definition calculate_portfolio_score :: "fetch_result \<Rightarrow> py_error + rat \<times> (string \<times> rat) list" where
  "calculate_portfolio_score data =
     (case data of
        NO_TOKEN \<Rightarrow> Inr (0, [])
      | ERROR \<Rightarrow> Inr (0, [])
      | Bundle user_data repos orgs \<Rightarrow>
          if repos = [] then Inr (0, [])
          else
            (case dimension_values repos orgs of
               Inl e \<Rightarrow> Inl e
             | Inr (doc_score, code_score, activity_score, org_score, impact_score, tech_score) \<Rightarrow>
                 Inr (py_round1 (final_score doc_score code_score activity_score
                                   org_score impact_score tech_score),
                      [(''Documentation Quality'', py_round1 doc_score),
                       (''Code Structure & Best Practices'', py_round1 code_score),
                       (''Activity Consistency'', py_round1 activity_score),
                       (''Repository Organization'', py_round1 org_score),
                       (''Project Impact'', py_round1 impact_score),
                       (''Technical Depth'', py_round1 tech_score)])))"

section \<open>Data fetcher\<close>

text \<open>
  The outcome of one \<open>requests.get\<close>: the call raises, or it returns a response with
  a status code and a body. The body is given as the outcome of decoding it, which can
  raise as well: \<open>response.json()\<close> for every endpoint but the README, where it is the
  outcome of \<open>base64.b64decode(response.json().get('content', '')).decode('utf-8')\<close>.
\<close>

datatype 'a response = Raises | Response int "py_error + 'a"

text \<open>
  The GitHub API as the fetcher sees it, one answer per request, and the clock
  (\<open>clock w i\<close> is what \<open>datetime.now()\<close> returns while repository number \<open>i\<close>
  is scored). Requests are identified by what the code puts into the URL.
\<close>

record world =
  user_response :: "string \<Rightarrow> pyval response"
  repos_response :: "string \<Rightarrow> nat \<Rightarrow> pyval response"
  readme_response :: "pyval \<Rightarrow> string response"
  languages_response :: "pyval \<Rightarrow> pyval response"
  commit_activity_response :: "pyval \<Rightarrow> pyval response"
  orgs_response :: "string \<Rightarrow> pyval response"
  clock :: "nat \<Rightarrow> datetime"

definition get_readme_content :: "world \<Rightarrow> pyval \<Rightarrow> string option" where
  "get_readme_content w repo_full_name =
     (case readme_response w repo_full_name of
        Raises \<Rightarrow> None
      | Response status_code body \<Rightarrow>
          if status_code = 200
          then (case body of Inl e \<Rightarrow> None | Inr content \<Rightarrow> Some (take 500 content))
          else None)"

definition get_commit_activity :: "world \<Rightarrow> pyval \<Rightarrow> pyval" where
  "get_commit_activity w repo_full_name =
     (case commit_activity_response w repo_full_name of
        Raises \<Rightarrow> PNone
      | Response status_code body \<Rightarrow>
          if status_code = 200
          then (case body of Inl e \<Rightarrow> PNone | Inr commits \<Rightarrow> commits)
          else PNone)"

text \<open>\<open>len(x)\<close>.\<close>

fun py_len :: "pyval \<Rightarrow> py_error + int" where
  "py_len (PStr s) = Inr (int (length s))"
| "py_len (PList xs) = Inr (int (length xs))"
| "py_len (PDict kvs) = Inr (int (length (remdups (map fst kvs))))"
| "py_len _ = Inl TypeError"

text \<open>What \<open>list.extend(x)\<close> appends: the elements \<open>x\<close> iterates over.\<close>

fun py_iter :: "pyval \<Rightarrow> py_error + pyval list" where
  "py_iter (PList xs) = Inr xs"
| "py_iter (PDict kvs) = Inr (map PStr (remdups (map fst kvs)))"
| "py_iter (PStr s) = Inr (map (\<lambda>c. PStr [c]) s)"
| "py_iter _ = Inl TypeError"

text \<open>\<open>x[k]\<close> with a string key: only a dictionary can be indexed by it.\<close>

fun py_item :: "pyval \<Rightarrow> string \<Rightarrow> py_error + pyval" where
  "py_item (PDict kvs) k = dict_item kvs k"
| "py_item _ k = Inl TypeError"

text \<open>
  The pagination loop \<open>while len(repos) < 50\<close>, from the list gathered so far and the
  number of the next page. A \<open>break\<close> returns the list as it is.
\<close>

function fetch_repos :: "world \<Rightarrow> string \<Rightarrow> pyval list \<Rightarrow> nat \<Rightarrow> py_error + pyval list" where
  "fetch_repos w username repos page =
     (if length repos < 50
      then (case repos_response w username page of
              Raises \<Rightarrow> Inl RequestException
            | Response status_code body \<Rightarrow>
                if status_code \<noteq> 200 then Inr repos
                else (case body of
                        Inl e \<Rightarrow> Inl e
                      | Inr page_repos \<Rightarrow>
                          if \<not> truthy page_repos then Inr repos
                          else (case py_iter page_repos of
                                  Inl e \<Rightarrow> Inl e
                                | Inr new_repos \<Rightarrow>
                                    fetch_repos w username (repos @ new_repos) (page + 1))))
      else Inr repos)"
  by pat_completeness auto
text \<open>
  The body of the loop \<open>for repo in repos\<close>: the three enrichment calls and the three
  sub-scores, each written into the repository's dictionary. Only the README and the
  commit-activity helpers catch what their request raises.
\<close>

definition enhance_repo :: "world \<Rightarrow> datetime \<Rightarrow> pyval \<Rightarrow> py_error + dict" where
  "enhance_repo w now repo_value =
     (case py_item repo_value ''full_name'' of Inl e \<Rightarrow> Inl e | Inr repo_full_name \<Rightarrow>
      case repo_value of PDict repo \<Rightarrow>
       (let readme = get_readme_content w repo_full_name;
            repo = dict_set repo ''readme_exists'' (PBool (readme \<noteq> None));
            repo = dict_set repo ''readme_preview'' (case readme of None \<Rightarrow> PNone | Some text \<Rightarrow> PStr text) in
        case dict_item repo ''languages_url'' of Inl e \<Rightarrow> Inl e | Inr lang_url \<Rightarrow>
        case languages_response w lang_url of Raises \<Rightarrow> Inl RequestException | Response status_code body \<Rightarrow>
        case (if status_code = 200 then body else Inr (PDict [])) of Inl e \<Rightarrow> Inl e | Inr languages \<Rightarrow>
        let repo = dict_set repo ''languages'' languages in
        case py_len languages of Inl e \<Rightarrow> Inl e | Inr languages_count \<Rightarrow>
        let repo = dict_set repo ''languages_count'' (PInt languages_count);
            commits = get_commit_activity w repo_full_name;
            repo = dict_set repo ''commit_activity'' commits;
            repo = dict_set repo ''doc_score'' (PInt (calculate_documentation_score repo)) in
        case calculate_code_quality_score repo of Inl e \<Rightarrow> Inl e | Inr code_score \<Rightarrow>
        let repo = dict_set repo ''code_score'' (PInt code_score) in
        case calculate_activity_score now repo of Inl e \<Rightarrow> Inl e | Inr activity_score \<Rightarrow>
        let repo = dict_set repo ''activity_score'' (PInt activity_score)
        in Inr repo)
      | _ \<Rightarrow> Inl TypeError)"

fun enhance_repos :: "world \<Rightarrow> nat \<Rightarrow> pyval list \<Rightarrow> py_error + dict list" where
  "enhance_repos w i [] = Inr []"
| "enhance_repos w i (repo # rest) =
     (case enhance_repo w (clock w i) repo of
        Inl e \<Rightarrow> Inl e
      | Inr enhanced \<Rightarrow>
          (case enhance_repos w (i + 1) rest of
             Inl e \<Rightarrow> Inl e
           | Inr enhanced_repos \<Rightarrow> Inr (enhanced # enhanced_repos)))"

text \<open>
  The body of the \<open>try\<close> block of \<open>get_enhanced_github_data\<close>; an \<open>Inl\<close> is an
  exception that reaches the handler.
\<close>

definition fetch_body :: "world \<Rightarrow> string \<Rightarrow> py_error + fetch_result" where
  "fetch_body w username =
     (case user_response w username of Raises \<Rightarrow> Inl RequestException | Response status_code body \<Rightarrow>
      if status_code \<noteq> 200 then Inr ERROR
      else
      case body of Inl e \<Rightarrow> Inl e | Inr user_data \<Rightarrow>
      case fetch_repos w username [] 1 of Inl e \<Rightarrow> Inl e | Inr repos \<Rightarrow>
      case enhance_repos w 0 repos of Inl e \<Rightarrow> Inl e | Inr enhanced_repos \<Rightarrow>
      case orgs_response w username of Raises \<Rightarrow> Inl RequestException | Response orgs_status orgs_body \<Rightarrow>
      case (if orgs_status = 200 then orgs_body else Inr (PList [])) of Inl e \<Rightarrow> Inl e | Inr orgs \<Rightarrow>
      Inr (Bundle user_data enhanced_repos orgs))"

text \<open>
  \<open>GITHUB_TOKEN\<close> is what \<open>os.getenv\<close> returned: \<open>None\<close> or a string. Every exception
  of the body is caught and becomes the sentinel \<open>ERROR\<close>. The message the handler
  shows on the page is not part of the value returned and is left out.
\<close>

definition get_enhanced_github_data :: "string option \<Rightarrow> world \<Rightarrow> string \<Rightarrow> fetch_result" where
  "get_enhanced_github_data GITHUB_TOKEN w username =
     (if GITHUB_TOKEN = None \<or> GITHUB_TOKEN = Some [] then NO_TOKEN
      else (case fetch_body w username of Inl e \<Rightarrow> ERROR | Inr data \<Rightarrow> data))"

section \<open>Recommendation generator\<close>













section \<open>AI assessment adapter\<close>










subsection \<open>A JSON decoder\<close>

text \<open>
  \<open>json.loads\<close> for the JSON texts whose numbers are integers and whose strings use
  no \<open>\u\<close> escape. A number with a fraction or an exponent, \<open>NaN\<close>, \<open>Infinity\<close>
  and a \<open>\u\<close> escape decode to values outside \<open>pyval\<close>; this decoder answers
  \<open>ValueError\<close> for them, so what is proved of its results concerns the other texts.
\<close>

definition json_space :: "char \<Rightarrow> bool" where
  "json_space c = (c = CHR '' '' \<or> c = CHR 0x09 \<or> c = CHR 0x0A \<or> c = CHR 0x0D)"

definition skip_ws :: "string \<Rightarrow> string" where
  "skip_ws s = dropWhile json_space s"

text \<open>The text of a string after its opening quote: the decoded string and the rest.\<close>

fun scanstring :: "string \<Rightarrow> string \<Rightarrow> (string \<times> string) option" where
  "scanstring acc [] = None"
| "scanstring acc [c] = (if c = CHR 0x22 then Some (acc, []) else None)"
| "scanstring acc (c # d # rest) =
     (if c = CHR 0x22 then Some (acc, d # rest)
      else if c = CHR 0x5C then
        (if d = CHR 0x22 then scanstring (acc @ [CHR 0x22]) rest
         else if d = CHR 0x5C then scanstring (acc @ [CHR 0x5C]) rest
         else if d = CHR ''/'' then scanstring (acc @ [CHR ''/'']) rest
         else if d = CHR ''b'' then scanstring (acc @ [CHR 0x08]) rest
         else if d = CHR ''f'' then scanstring (acc @ [CHR 0x0C]) rest
         else if d = CHR ''n'' then scanstring (acc @ [CHR 0x0A]) rest
         else if d = CHR ''r'' then scanstring (acc @ [CHR 0x0D]) rest
         else if d = CHR ''t'' then scanstring (acc @ [CHR 0x09]) rest
         else None)
      else if (of_char c :: nat) < 32 then None
      else scanstring (acc @ [c]) (d # rest))"

text \<open>
  A number at the start of the text: \<open>-?(0|[1-9]\d*)\<close>, refused when a fraction or an
  exponent follows.
\<close>

definition scan_digits :: "string \<Rightarrow> (string \<times> string) option" where
  "scan_digits s =
     (case s of
        [] \<Rightarrow> None
      | c # cs \<Rightarrow>
          if c = CHR ''0'' then Some ([c], cs)
          else if char_in (CHR ''1'') (CHR ''9'') c then Some (c # takeWhile digit cs, dropWhile digit cs)
          else None)"

definition is_float_tail :: "string \<Rightarrow> bool" where
  "is_float_tail s =
     (case s of
        c # d # rest \<Rightarrow>
          (c = CHR ''.'' \<and> digit d)
          \<or> ((c = CHR ''e'' \<or> c = CHR ''E'')
              \<and> (digit d \<or> ((d = CHR ''+'' \<or> d = CHR ''-'') \<and> (case rest of [] \<Rightarrow> False | x # _ \<Rightarrow> digit x))))
      | _ \<Rightarrow> False)"

definition scan_number :: "string \<Rightarrow> (pyval \<times> string) option" where
  "scan_number s =
     (case (case s of c # cs \<Rightarrow> if c = CHR ''-'' then (True, cs) else (False, s) | [] \<Rightarrow> (False, s)) of
        (negative, body) \<Rightarrow>
          (case scan_digits body of
             None \<Rightarrow> None
           | Some (ds, rest) \<Rightarrow>
               if is_float_tail rest then None
               else Some (PInt (if negative then - int_of_field ds else int_of_field ds), rest)))"

text \<open>
  The scanner, with a bound on the number of nested calls. \<open>parse_elements\<close> stands at
  the first character of an array element, \<open>parse_members\<close> at the quote that opens
  a key.
\<close>

fun parse_value :: "nat \<Rightarrow> string \<Rightarrow> (pyval \<times> string) option"
  and parse_elements :: "nat \<Rightarrow> pyval list \<Rightarrow> string \<Rightarrow> (pyval \<times> string) option"
  and parse_members :: "nat \<Rightarrow> dict \<Rightarrow> string \<Rightarrow> (pyval \<times> string) option" where
  "parse_value 0 s = None"
| "parse_value (Suc n) s =
     (case s of
        [] \<Rightarrow> None
      | c # rest \<Rightarrow>
          if c = CHR 0x22 then
            (case scanstring [] rest of None \<Rightarrow> None | Some (str, r1) \<Rightarrow> Some (PStr str, r1))
          else if c = CHR ''{'' then
            (case skip_ws rest of
               [] \<Rightarrow> None
             | d # r1 \<Rightarrow>
                 if d = CHR ''}'' then Some (PDict [], r1)
                 else if d = CHR 0x22 then parse_members n [] (d # r1)
                 else None)
          else if c = CHR ''['' then
            (case skip_ws rest of
               [] \<Rightarrow> None
             | d # r1 \<Rightarrow>
                 if d = CHR '']'' then Some (PList [], r1)
                 else parse_elements n [] (d # r1))
          else if take 4 s = ''null'' then Some (PNone, drop 4 s)
          else if take 4 s = ''true'' then Some (PBool True, drop 4 s)
          else if take 5 s = ''false'' then Some (PBool False, drop 5 s)
          else scan_number s)"
| "parse_elements 0 acc s = None"
| "parse_elements (Suc n) acc s =
     (case parse_value n s of
        None \<Rightarrow> None
      | Some (v, rest) \<Rightarrow>
          (case skip_ws rest of
             [] \<Rightarrow> None
           | d # r1 \<Rightarrow>
               if d = CHR '']'' then Some (PList (acc @ [v]), r1)
               else if d = CHR '','' then parse_elements n (acc @ [v]) (skip_ws r1)
               else None))"
| "parse_members 0 acc s = None"
| "parse_members (Suc n) acc s =
     (case s of
        [] \<Rightarrow> None
      | q # after_quote \<Rightarrow>
          if q \<noteq> CHR 0x22 then None
          else
            (case scanstring [] after_quote of
               None \<Rightarrow> None
             | Some (key, rest) \<Rightarrow>
                 (case skip_ws rest of
                    [] \<Rightarrow> None
                  | colon # r1 \<Rightarrow>
                      if colon \<noteq> CHR '':'' then None
                      else
                        (case parse_value n (skip_ws r1) of
                           None \<Rightarrow> None
                         | Some (v, r2) \<Rightarrow>
                             (case skip_ws r2 of
                                [] \<Rightarrow> None
                              | d # r3 \<Rightarrow>
                                  if d = CHR ''}'' then Some (PDict (dict_set acc key v), r3)
                                  else if d = CHR '','' then parse_members n (dict_set acc key v) (skip_ws r3)
                                  else None)))))"


section \<open>Notions used in the statements\<close>

text \<open>The share a signal contributes: \<open>n\<close> when it is on, nothing otherwise.\<close>

definition points :: "bool \<Rightarrow> int \<Rightarrow> int" where
  "points b n = (if b then n else 0)"

text \<open>The values Python orders against a number, and those among them greater than zero.\<close>

fun is_number :: "pyval \<Rightarrow> bool" where
  "is_number (PInt n) = True"
| "is_number (PBool b) = True"
| "is_number _ = False"

definition positive :: "pyval \<Rightarrow> bool" where
  "positive x = (case py_number x of Inl e \<Rightarrow> False | Inr n \<Rightarrow> n > 0)"

text \<open>The recency bucket of the activity score.\<close>

definition recency_points :: "int \<Rightarrow> int" where
  "recency_points days = (if days < 7 then 40 else if days < 30 then 30 else if days < 90 then 20 else 10)"



section \<open>Example inputs\<close>

text \<open>A repository last pushed in January 2011, and three readings of the clock.\<close>

definition old_repo :: dict where
  "old_repo = [(''name'', PStr ''attic''), (''pushed_at'', PStr ''2011-01-26T19:01:12Z'')]"

definition clock_2011 :: datetime where
  "clock_2011 = \<lparr>year = 2011, month = 1, day = 28, hour = 8, minute = 0, second = 0, microsecond = 0\<rparr>"

definition clock_2024 :: datetime where
  "clock_2024 = \<lparr>year = 2024, month = 5, day = 17, hour = 9, minute = 30, second = 0, microsecond = 250000\<rparr>"

definition clock_2024_evening :: datetime where
  "clock_2024_evening = \<lparr>year = 2024, month = 5, day = 17, hour = 18, minute = 45, second = 10, microsecond = 0\<rparr>"

text \<open>The same dictionary as \<open>old_repo\<close>, its entries inserted in the other order.\<close>

definition old_repo_reordered :: dict where
  "old_repo_reordered = [(''pushed_at'', PStr ''2011-01-26T19:01:12Z''), (''name'', PStr ''attic'')]"

text \<open>A repository as the API lists it, and an API that answers every request.\<close>

definition sample_repo :: pyval where
  "sample_repo = PDict
     [(''name'', PStr ''hello''), (''full_name'', PStr ''octocat/hello''),
      (''languages_url'', PStr ''https://api.github.com/repos/octocat/hello/languages''),
      (''description'', PStr ''demo''), (''pushed_at'', PStr ''2024-05-01T12:00:00Z''),
      (''size'', PInt 10), (''stargazers_count'', PInt 3), (''forks_count'', PInt 0),
      (''open_issues_count'', PInt 0), (''watchers_count'', PInt 3),
      (''has_issues'', PBool True), (''has_projects'', PBool True),
      (''has_wiki'', PBool True), (''has_pages'', PBool False), (''homepage'', PNone)]"

definition healthy_world :: world where
  "healthy_world =
     \<lparr>user_response = (\<lambda>username. Response 200 (Inr (PDict [(''login'', PStr username)]))),
      repos_response = (\<lambda>username page. Response 200 (Inr (PList (if page = 1 then [sample_repo] else [])))),
      readme_response = (\<lambda>repo_full_name. Response 200 (Inr ''# hello'')),
      languages_response = (\<lambda>lang_url. Response 200 (Inr (PDict [(''Python'', PInt 1200)]))),
      commit_activity_response = (\<lambda>repo_full_name. Response 202 (Inr (PDict []))),
      orgs_response = (\<lambda>username. Response 200 (Inr (PList []))),
      clock = (\<lambda>i. clock_2024)\<rparr>"

text \<open>The same API for an account with many repositories: every page is full.\<close>

definition prolific_world :: world where
  "prolific_world =
     healthy_world\<lparr>repos_response := (\<lambda>username page. Response 200 (Inr (PList (replicate 30 sample_repo))))\<rparr>"

text \<open>Two scored repositories without stars, forks or documentation, and their bundle.\<close>

definition bare_repo :: "string \<Rightarrow> dict" where
  "bare_repo name =
     [(''name'', PStr name), (''stargazers_count'', PInt 0), (''forks_count'', PInt 0),
      (''languages'', PDict [(''C'', PInt 10)]),
      (''doc_score'', PInt 20), (''code_score'', PInt 45), (''activity_score'', PInt 10)]"

definition bare_bundle :: fetch_result where
  "bare_bundle = Bundle (PDict [(''login'', PStr ''octocat'')]) [bare_repo ''one'', bare_repo ''two''] (PList [])"

definition bare_dimensions :: "(string \<times> rat) list" where
  "bare_dimensions =
     [(''Documentation Quality'', 20), (''Code Structure & Best Practices'', 45),
      (''Activity Consistency'', 10), (''Repository Organization'', 0),
      (''Project Impact'', 0), (''Technical Depth'', 8)]"




section \<open>Termination of the pagination loop\<close>

text \<open>
  Every round of the loop that does not leave it appends a non-empty page, so the
  distance of the list's length to the cap of 50 shrinks.
\<close>

lemma py_iter_nonempty: "truthy x \<Longrightarrow> py_iter x = Inr xs \<Longrightarrow> xs \<noteq> []"
  by (cases x) auto

lemma extend_closer_to_cap: "xs \<noteq> [] \<Longrightarrow> n < 50 \<Longrightarrow> 50 - (n + length xs) < 50 - (n::nat)"
  by (cases xs) auto

termination fetch_repos
  by (relation "measure (\<lambda>(w, username, repos, page). 50 - length repos)")
     (auto dest!: py_iter_nonempty simp: extend_closer_to_cap)

section \<open>Properties\<close>

subsection \<open>Dictionaries\<close>

lemma dict_get_set:
  "dict_get (dict_set d k v) k' dflt = (if k' = k then v else dict_get d k' dflt)"
  by (simp add: dict_get_def dict_set_def update_conv')

lemma dict_get_cong: "map_of ra = map_of rb \<Longrightarrow> dict_get ra k d = dict_get rb k d"
  by (simp add: dict_get_def)

subsection \<open>Documentation score\<close>

lemma documentation_score_sum:
  "calculate_documentation_score repo =
     points (truthy (dict_get repo ''readme_exists'' (PBool False))) 40
   + points (truthy (dict_get repo ''description'' PNone)) 20
   + points (truthy (dict_get repo ''homepage'' PNone)) 10
   + points (truthy (dict_get repo ''has_wiki'' PNone)) 15
   + points (truthy (dict_get repo ''has_pages'' PNone)) 15"
  by (simp add: calculate_documentation_score_def points_def Let_def)

lemma points_mono: "(a \<Longrightarrow> b) \<Longrightarrow> 0 \<le> n \<Longrightarrow> points a n \<le> points b n"
  by (auto simp: points_def)

lemma points_bounds: "0 \<le> n \<Longrightarrow> 0 \<le> points b n \<and> points b n \<le> n"
  by (simp add: points_def)

text \<open>
  C8. The documentation score is monotonic non-decreasing in each of its five signals:
  storing a true value (a present README, a non-empty description or homepage, an enabled
  wiki or pages flag) under one of the five keys, with every other entry of the record
  unchanged, never decreases the score.
\<close>

theorem documentation_score_monotone:
  assumes "k \<in> set doc_signals" and "truthy v"
  shows "calculate_documentation_score repo
           \<le> calculate_documentation_score (dict_set repo k v)"
proof -
  have "points (truthy (dict_get repo k' d)) n
          \<le> points (truthy (dict_get (dict_set repo k v) k' d)) n" if "0 \<le> n" for k' d n
    using that assms(2) by (intro points_mono) (simp_all add: dict_get_set)
  then show ?thesis
    unfolding documentation_score_sum by (intro add_mono) simp_all
qed

theorem documentation_score_monotone_witness:
  "''has_wiki'' \<in> set doc_signals \<and> truthy (PBool True) \<and>
   calculate_documentation_score [(''description'', PStr ''x'')] = 20 \<and>
   calculate_documentation_score [(''description'', PStr ''x'')]
     \<le> calculate_documentation_score (dict_set [(''description'', PStr ''x'')] ''has_wiki'' (PBool True))"
proof -
  have k: "''has_wiki'' \<in> set doc_signals" by (simp add: doc_signals_def)
  have v: "truthy (PBool True)" by simp
  have s: "calculate_documentation_score [(''description'', PStr ''x'')] = 20"
    by (simp add: calculate_documentation_score_def dict_get_def)
  from documentation_score_monotone [OF k v, of "[(''description'', PStr ''x'')]"] k v s
  show ?thesis by blast
qed

subsection \<open>Code quality score\<close>

lemma py_gt_number: "is_number x \<Longrightarrow> py_gt x 0 = Inr (positive x)"
  by (cases x) (simp_all add: py_gt_def positive_def)

lemma py_gt_Inr: "py_gt x 0 = Inr b \<Longrightarrow> is_number x"
  by (cases x) (simp_all add: py_gt_def)

text \<open>
  C5, as the code has it. On every repository record whose language count, size and
  star count are numbers or absent, the code quality score is the sum of five fixed
  shares, capped at 100: 20 for a detected language, 15 for an enabled issue tracker,
  15 for enabled project boards, 25 for a size above zero and 25 for a star count above
  zero. The shares are not equal.
\<close>

theorem code_quality_score_shares:
  assumes "is_number (dict_get repo ''languages_count'' (PInt 0))"
    and "is_number (dict_get repo ''size'' (PInt 0))"
    and "is_number (dict_get repo ''stargazers_count'' (PInt 0))"
  shows "calculate_code_quality_score repo =
     Inr (min (points (positive (dict_get repo ''languages_count'' (PInt 0))) 20
             + points (truthy (dict_get repo ''has_issues'' (PBool False))) 15
             + points (truthy (dict_get repo ''has_projects'' (PBool False))) 15
             + points (positive (dict_get repo ''size'' (PInt 0))) 25
             + points (positive (dict_get repo ''stargazers_count'' (PInt 0))) 25) 100)"
  using assms
  by (simp add: calculate_code_quality_score_def py_gt_number points_def Let_def)

theorem code_quality_score_shares_witness:
  "is_number (dict_get [(''languages_count'', PInt 2), (''has_issues'', PBool True), (''size'', PInt 120)]
      ''languages_count'' (PInt 0)) \<and>
   calculate_code_quality_score
     [(''languages_count'', PInt 2), (''has_issues'', PBool True), (''size'', PInt 120)] = Inr 60"
  using code_quality_score_shares
    [of "[(''languages_count'', PInt 2), (''has_issues'', PBool True), (''size'', PInt 120)]"]
  by (simp add: dict_get_def positive_def points_def)

text \<open>
  C5 as stated fails: a detected language alone is worth 20, an enabled issue tracker
  alone 15 and a non-zero size alone 25, so the five signals are not equally weighted.
\<close>

theorem code_quality_shares_unequal:
  "calculate_code_quality_score [(''languages_count'', PInt 1)] = Inr 20 \<and>
   calculate_code_quality_score [(''has_issues'', PBool True)] = Inr 15 \<and>
   calculate_code_quality_score [(''size'', PInt 1)] = Inr 25"
  by (simp add: calculate_code_quality_score_def dict_get_def py_gt_def)

subsection \<open>Activity score\<close>

lemma activity_score_sum:
  assumes "strptime (dict_get repo ''pushed_at'' (PStr ''2000-01-01'')) = Inr t"
    and "is_number (dict_get repo ''open_issues_count'' (PInt 0))"
    and "is_number (dict_get repo ''forks_count'' (PInt 0))"
    and "is_number (dict_get repo ''watchers_count'' (PInt 0))"
  shows "calculate_activity_score now repo =
     Inr (recency_points (days_between now t)
          + points (positive (dict_get repo ''open_issues_count'' (PInt 0))) 20
          + points (positive (dict_get repo ''forks_count'' (PInt 0))) 20
          + points (positive (dict_get repo ''watchers_count'' (PInt 0))) 20)"
  using assms
  by (simp add: calculate_activity_score_def py_gt_number points_def recency_points_def Let_def)

lemma activity_score_Inr:
  assumes "calculate_activity_score now repo = Inr s"
  shows "\<exists>t. strptime (dict_get repo ''pushed_at'' (PStr ''2000-01-01'')) = Inr t
     \<and> is_number (dict_get repo ''open_issues_count'' (PInt 0))
     \<and> is_number (dict_get repo ''forks_count'' (PInt 0))
     \<and> is_number (dict_get repo ''watchers_count'' (PInt 0))"
  using assms unfolding calculate_activity_score_def Let_def
  by (auto split: sum.splits dest: py_gt_Inr)

lemma recency_points_bounds: "10 \<le> recency_points d \<and> recency_points d \<le> 40"
  by (simp add: recency_points_def)

text \<open>
  C9. Whatever the clock shows, a value returned by the activity score lies between 10
  and 100: the recency bucket contributes at least 10 however old the push is. And the
  score is returned for every repository record whose \<open>pushed_at\<close> parses and whose
  issue, fork and watcher counts are numbers or absent.
\<close>

theorem activity_score_at_least_10:
  "(\<forall>s. calculate_activity_score now repo = Inr s \<longrightarrow> 10 \<le> s \<and> s \<le> 100) \<and>
   ((\<exists>t. strptime (dict_get repo ''pushed_at'' (PStr ''2000-01-01'')) = Inr t)
      \<and> is_number (dict_get repo ''open_issues_count'' (PInt 0))
      \<and> is_number (dict_get repo ''forks_count'' (PInt 0))
      \<and> is_number (dict_get repo ''watchers_count'' (PInt 0))
    \<longrightarrow> (\<exists>s. calculate_activity_score now repo = Inr s \<and> 10 \<le> s \<and> s \<le> 100))"
proof -
  have bounds: "10 \<le> s \<and> s \<le> 100" if "calculate_activity_score now repo = Inr s" for s
  proof -
    from activity_score_Inr [OF that] obtain t where
      "strptime (dict_get repo ''pushed_at'' (PStr ''2000-01-01'')) = Inr t"
      "is_number (dict_get repo ''open_issues_count'' (PInt 0))"
      "is_number (dict_get repo ''forks_count'' (PInt 0))"
      "is_number (dict_get repo ''watchers_count'' (PInt 0))"
      by blast
    from activity_score_sum [OF this, of now] that
    have "s = recency_points (days_between now t)
          + points (positive (dict_get repo ''open_issues_count'' (PInt 0))) 20
          + points (positive (dict_get repo ''forks_count'' (PInt 0))) 20
          + points (positive (dict_get repo ''watchers_count'' (PInt 0))) 20"
      by simp
    moreover note recency_points_bounds [of "days_between now t"]
      points_bounds [of 20 "positive (dict_get repo ''open_issues_count'' (PInt 0))"]
      points_bounds [of 20 "positive (dict_get repo ''forks_count'' (PInt 0))"]
      points_bounds [of 20 "positive (dict_get repo ''watchers_count'' (PInt 0))"]
    ultimately show ?thesis by linarith
  qed
  moreover have "\<exists>s. calculate_activity_score now repo = Inr s"
    if "strptime (dict_get repo ''pushed_at'' (PStr ''2000-01-01'')) = Inr t"
      "is_number (dict_get repo ''open_issues_count'' (PInt 0))"
      "is_number (dict_get repo ''forks_count'' (PInt 0))"
      "is_number (dict_get repo ''watchers_count'' (PInt 0))" for t
    using activity_score_sum [OF that] by blast
  ultimately show ?thesis by blast
qed

lemma old_repo_pushed_at:
  "strptime (dict_get old_repo ''pushed_at'' (PStr ''2000-01-01''))
     = Inr \<lparr>year = 2011, month = 1, day = 26, hour = 19, minute = 1, second = 12, microsecond = 0\<rparr>"
  by code_simp

theorem activity_score_at_least_10_witness:
  "(\<exists>t. strptime (dict_get old_repo ''pushed_at'' (PStr ''2000-01-01'')) = Inr t)
   \<and> is_number (dict_get old_repo ''open_issues_count'' (PInt 0))
   \<and> is_number (dict_get old_repo ''forks_count'' (PInt 0))
   \<and> is_number (dict_get old_repo ''watchers_count'' (PInt 0))
   \<and> (\<exists>s. calculate_activity_score clock_2024 old_repo = Inr s \<and> 10 \<le> s \<and> s \<le> 100)"
proof -
  have n: "is_number (dict_get old_repo ''open_issues_count'' (PInt 0))"
    "is_number (dict_get old_repo ''forks_count'' (PInt 0))"
    "is_number (dict_get old_repo ''watchers_count'' (PInt 0))"
    by (simp_all add: old_repo_def dict_get_def)
  from activity_score_at_least_10 [of clock_2024 old_repo] old_repo_pushed_at n show ?thesis
    by blast
qed

subsection \<open>Which inputs the scores depend on\<close>

text \<open>
  C3 as stated fails for the activity score: the same record scored under two readings
  of the clock, two days and thirteen years after the push, gets 40 and 10.
\<close>

theorem activity_score_depends_on_clock:
  "calculate_activity_score clock_2011 old_repo = Inr 40 \<and>
   calculate_activity_score clock_2024 old_repo = Inr 10"
  by code_simp

lemma map_dict_get_cong:
  assumes "map map_of rsa = map map_of rsb"
  shows "map (\<lambda>r. dict_get r k d) rsa = map (\<lambda>r. dict_get r k d) rsb"
proof -
  have *: "map (\<lambda>r. dict_get r k d) rs
         = map (\<lambda>m. case m k of None \<Rightarrow> d | Some v \<Rightarrow> v) (map map_of rs)" for rs
    by (simp add: dict_get_def)
  show ?thesis unfolding * assms ..
qed

lemma collect_languages_cong:
  "map map_of rsa = map map_of rsb \<Longrightarrow> collect_languages acc rsa = collect_languages acc rsb"
proof (induction rsa arbitrary: rsb acc)
  case Nil
  then show ?case by simp
next
  case (Cons ra rsa)
  then obtain rb rsb' where rsb: "rsb = rb # rsb'" and hd: "map_of ra = map_of rb"
    and tl: "map map_of rsa = map map_of rsb'"
    by (cases rsb) auto
  show ?case
    by (simp add: rsb dict_get_cong [OF hd] Cons.IH [OF tl] split: sum.splits)
qed

lemma dimension_values_cong:
  assumes "map map_of rsa = map map_of rsb"
  shows "dimension_values rsa orgs = dimension_values rsb orgs"
proof -
  have len: "length rsa = length rsb" using assms by (metis length_map)
  show ?thesis
    unfolding dimension_values_def
    by (simp only: map_dict_get_cong [OF assms] collect_languages_cong [OF assms] len)
qed

lemma portfolio_score_cong:
  assumes "map map_of rsa = map map_of rsb"
  shows "calculate_portfolio_score (Bundle ua rsa orgs) = calculate_portfolio_score (Bundle ub rsb orgs)"
proof -
  have "(rsa = []) = (rsb = [])" using assms by (metis map_is_Nil_conv)
  then show ?thesis
    by (simp add: calculate_portfolio_score_def dimension_values_cong [OF assms])
qed

text \<open>
  C3, as the code has it. The documentation, code quality and portfolio scores are
  functions of their argument alone: two dictionaries with the same entries, in any
  order, get the same result, and so do two bundles whose repositories have the same
  entries and whose organization lists agree. The activity score is a function of its
  argument and of the clock: it gives the same result on dictionaries with the same
  entries under the same reading, and on one record under two readings that are the same
  number of whole days after the push.
\<close>

theorem scores_determined_by_input_and_clock:
  "(map_of ra = map_of rb \<longrightarrow>
      calculate_documentation_score ra = calculate_documentation_score rb
    \<and> calculate_code_quality_score ra = calculate_code_quality_score rb
    \<and> calculate_activity_score now ra = calculate_activity_score now rb) \<and>
   (map map_of rsa = map map_of rsb \<longrightarrow>
      calculate_portfolio_score (Bundle ua rsa orgs) = calculate_portfolio_score (Bundle ub rsb orgs)) \<and>
   (strptime (dict_get ra ''pushed_at'' (PStr ''2000-01-01'')) = Inr t
      \<and> days_between nowa t = days_between nowb t \<longrightarrow>
      calculate_activity_score nowa ra = calculate_activity_score nowb ra)"
proof (intro conjI impI)
  assume m: "map_of ra = map_of rb"
  show "calculate_documentation_score ra = calculate_documentation_score rb"
    by (simp add: calculate_documentation_score_def dict_get_cong [OF m])
  show "calculate_code_quality_score ra = calculate_code_quality_score rb"
    unfolding calculate_code_quality_score_def dict_get_cong [OF m] by (rule refl)
  show "calculate_activity_score now ra = calculate_activity_score now rb"
    unfolding calculate_activity_score_def dict_get_cong [OF m] by (rule refl)
next
  assume "map map_of rsa = map map_of rsb"
  then show "calculate_portfolio_score (Bundle ua rsa orgs) = calculate_portfolio_score (Bundle ub rsb orgs)"
    by (rule portfolio_score_cong)
next
  assume "strptime (dict_get ra ''pushed_at'' (PStr ''2000-01-01'')) = Inr t
      \<and> days_between nowa t = days_between nowb t"
  then show "calculate_activity_score nowa ra = calculate_activity_score nowb ra"
    by (simp add: calculate_activity_score_def Let_def)
qed

theorem scores_determined_by_input_and_clock_witness:
  "map_of old_repo = map_of old_repo_reordered
   \<and> calculate_documentation_score old_repo = calculate_documentation_score old_repo_reordered
   \<and> calculate_code_quality_score old_repo = calculate_code_quality_score old_repo_reordered
   \<and> calculate_activity_score clock_2024 old_repo = calculate_activity_score clock_2024 old_repo_reordered
   \<and> map map_of [old_repo] = map map_of [old_repo_reordered]
   \<and> calculate_portfolio_score (Bundle PNone [old_repo] (PList []))
       = calculate_portfolio_score (Bundle (PStr ''u'') [old_repo_reordered] (PList []))
   \<and> days_between clock_2024 \<lparr>year = 2011, month = 1, day = 26, hour = 19, minute = 1, second = 12, microsecond = 0\<rparr>
       = days_between clock_2024_evening \<lparr>year = 2011, month = 1, day = 26, hour = 19, minute = 1, second = 12, microsecond = 0\<rparr>
   \<and> calculate_activity_score clock_2024 old_repo = calculate_activity_score clock_2024_evening old_repo"
proof -
  have m: "map_of old_repo = map_of old_repo_reordered"
    by (auto simp: old_repo_def old_repo_reordered_def fun_eq_iff)
  then have ms: "map map_of [old_repo] = map map_of [old_repo_reordered]" by simp
  have d: "days_between clock_2024 \<lparr>year = 2011, month = 1, day = 26, hour = 19, minute = 1, second = 12, microsecond = 0\<rparr>
       = days_between clock_2024_evening \<lparr>year = 2011, month = 1, day = 26, hour = 19, minute = 1, second = 12, microsecond = 0\<rparr>"
    by code_simp
  from scores_determined_by_input_and_clock
    [where ra = old_repo and rb = old_repo_reordered and now = clock_2024
       and rsa = "[old_repo]" and rsb = "[old_repo_reordered]"
       and ua = PNone and ub = "PStr ''u''" and orgs = "PList []"
       and t = "\<lparr>year = 2011, month = 1, day = 26, hour = 19, minute = 1, second = 12, microsecond = 0\<rparr>"
       and nowa = clock_2024 and nowb = clock_2024_evening]
    m ms d old_repo_pushed_at
  show ?thesis by blast
qed

subsection \<open>Portfolio score\<close>

lemma py_round1_of_int: "py_round1 (of_int n) = of_int n"
proof -
  have "(of_int n :: rat) * 10 = of_int (n * 10)" by simp
  then show ?thesis
    unfolding py_round1_def Let_def by (simp del: of_int_mult)
qed








lemma dimension_values_org_tech:
  assumes "dimension_values repos orgs = Inr (d, c, a, g, i, t)"
  shows "\<exists>og tc. g = of_int og \<and> og \<le> 60 \<and> t = of_int tc \<and> tc \<le> 40"
  using assms unfolding dimension_values_def Let_def
  by (auto split: sum.splits if_splits)

text \<open>
  C10. In every non-empty dimension map that the portfolio score returns, the value of
  \<open>Repository Organization\<close> is at most 60 and the value of \<open>Technical Depth\<close> is at
  most 40.
\<close>

theorem organization_and_depth_caps:
  assumes "calculate_portfolio_score data = Inr (s, dims)" and "dims \<noteq> []"
  shows "\<exists>g t. map_of dims ''Repository Organization'' = Some g \<and> g \<le> 60
             \<and> map_of dims ''Technical Depth'' = Some t \<and> t \<le> 40"
proof -
  from assms obtain u repos orgs d c a g i t where
    dv: "dimension_values repos orgs = Inr (d, c, a, g, i, t)" and
    dims: "dims = [(''Documentation Quality'', py_round1 d),
                   (''Code Structure & Best Practices'', py_round1 c),
                   (''Activity Consistency'', py_round1 a),
                   (''Repository Organization'', py_round1 g),
                   (''Project Impact'', py_round1 i),
                   (''Technical Depth'', py_round1 t)]"
    unfolding calculate_portfolio_score_def
    by (auto split: fetch_result.splits if_splits sum.splits)
  from dimension_values_org_tech [OF dv] obtain og tc where
    "g = of_int og" "og \<le> 60" "t = of_int tc" "tc \<le> 40" by blast
  then have "py_round1 g \<le> 60" "py_round1 t \<le> 40"
    by (simp_all add: py_round1_of_int)
  then show ?thesis unfolding dims by simp
qed

theorem organization_and_depth_caps_witness:
  "calculate_portfolio_score bare_bundle = Inr (157 / 10, bare_dimensions)
   \<and> bare_dimensions \<noteq> []
   \<and> (\<exists>g t. map_of bare_dimensions ''Repository Organization'' = Some g \<and> g \<le> 60
          \<and> map_of bare_dimensions ''Technical Depth'' = Some t \<and> t \<le> 40)"
proof -
  have e: "calculate_portfolio_score bare_bundle = Inr (157 / 10, bare_dimensions)"
    by code_simp
  have n: "bare_dimensions \<noteq> []" by (simp add: bare_dimensions_def)
  from organization_and_depth_caps [OF e n] e n show ?thesis by blast
qed

subsection \<open>Recommendations\<close>








subsection \<open>Data fetcher\<close>

text \<open>
  C2 fails on the code for the language breakdown. With an API that answers every other
  request, a language request that raises makes the whole fetch return the sentinel
  \<open>ERROR\<close>, while the same failure of the README and commit-activity requests leaves a
  bundle: only those two helpers catch what their request raises.
\<close>

theorem languages_exception_aborts_fetch:
  "get_enhanced_github_data (Some ''ghp_x'')
     (healthy_world\<lparr>languages_response := (\<lambda>lang_url. Raises)\<rparr>) ''octocat'' = ERROR \<and>
   get_enhanced_github_data (Some ''ghp_x'')
     (healthy_world\<lparr>readme_response := (\<lambda>repo_full_name. Raises),
                     commit_activity_response := (\<lambda>repo_full_name. Raises)\<rparr>) ''octocat'' \<noteq> ERROR"
  by code_simp

lemma enhance_repos_replicate:
  assumes "\<And>i. enhance_repo w (clock w i) repo = Inr enhanced"
  shows "enhance_repos w i (replicate n repo) = Inr (replicate n enhanced)"
  by (induction n arbitrary: i) (simp_all add: assms)

lemma prolific_fetch_repos:
  "fetch_repos prolific_world username [] 1 = Inr (replicate 30 sample_repo @ replicate 30 sample_repo)"
proof -
  have "fetch_repos prolific_world username [] 1
      = fetch_repos prolific_world username (replicate 30 sample_repo) 2"
    by (subst fetch_repos.simps) (simp add: prolific_world_def healthy_world_def)
  also have "\<dots> = fetch_repos prolific_world username
                     (replicate 30 sample_repo @ replicate 30 sample_repo) 3"
    by (subst fetch_repos.simps) (simp add: prolific_world_def healthy_world_def)
  also have "\<dots> = Inr (replicate 30 sample_repo @ replicate 30 sample_repo)"
    by (subst fetch_repos.simps) simp
  finally show ?thesis .
qed

text \<open>
  C4 fails on the code for the size of the result. For an account whose pages are full
  (30 repositories each), the loop stops after the second page with 60 repositories
  gathered, and all 60 are in the bundle returned.
\<close>

theorem sixty_repositories_returned:
  "\<exists>user_data repos orgs.
     get_enhanced_github_data (Some ''ghp_x'') prolific_world ''octocat'' = Bundle user_data repos orgs
     \<and> length repos = 60"
proof -
  have "\<not> isl (enhance_repo prolific_world clock_2024 sample_repo)"
    by code_simp
  then obtain enhanced where "enhance_repo prolific_world clock_2024 sample_repo = Inr enhanced"
    by (cases "enhance_repo prolific_world clock_2024 sample_repo") auto
  then have one: "enhance_repo prolific_world (clock prolific_world i) sample_repo = Inr enhanced" for i
    by (simp add: prolific_world_def healthy_world_def)
  have "enhance_repos prolific_world 0 (replicate 30 sample_repo @ replicate 30 sample_repo)
      = Inr (replicate 60 enhanced)"
    using enhance_repos_replicate [of prolific_world sample_repo enhanced 0 60, OF one]
    by (simp flip: replicate_add)
  then have "get_enhanced_github_data (Some ''ghp_x'') prolific_world ''octocat''
      = Bundle (PDict [(''login'', PStr ''octocat'')]) (replicate 60 enhanced) (PList [])"
    by (simp add: get_enhanced_github_data_def fetch_body_def prolific_fetch_repos)
       (simp add: prolific_world_def healthy_world_def)
  then show ?thesis by simp
qed

subsection \<open>AI assessment adapter\<close>





end
